theory Spec2Isabelle
  imports Main "HOL-Library.AList"
begin

section \<open>Values, errors and the network\<close>

text \<open>
  The page handles values parsed from JSON bodies. A value is one of the JavaScript
  values \<open>undefined\<close>, \<open>null\<close>, a boolean, a number, a string, an array or an
  object; an object is the list of its members in insertion order. Numbers are
  only tested for truthiness by the code, so they are kept as integers.
\<close>

datatype json =
    JUndef
  | JNull
  | JBool bool
  | JNum int
  | JStr string
  | JArr "json list"
  | JObj "(string \<times> json) list"

text \<open>
  Everything the code can throw: a \<open>TypeError\<close> of the runtime, a rejected
  \<open>fetch\<close>, the errors built from a non-2xx status, a body that is not JSON,
  the error of \<open>findWorkingBackend\<close>, the error built in \<open>fetchWalletData\<close> from
  \<open>certsData.error || 'Failed to fetch certificates'\<close>, and an error thrown by
  the wallet provider (with its \<open>code\<close>, if it has one).
\<close>

datatype js_error =
    TypeError
  | FetchFailed
  | BadStatus nat
  | BadJSON
  | NoBackend
  | Failed json
  | ProviderError "int option"

datatype response = Response (status: nat) (body: "json option")

text \<open>\<open>response.ok\<close>: the status is in the range 200 to 299.\<close>

definition ok :: "response \<Rightarrow> bool" where
  "ok r = (200 \<le> status r \<and> status r \<le> 299)"

text \<open>\<open>response.json()\<close>: throws when the body is not JSON.\<close>

definition json_of :: "response \<Rightarrow> js_error + json" where
  "json_of r = (case body r of None \<Rightarrow> Inl BadJSON | Some v \<Rightarrow> Inr v)"

text \<open>
  The network answers the \<open>n\<close>-th request of a run (counted from 0) to a URL either
  with a response or not at all (\<open>None\<close>: \<open>fetch\<close> rejects). The trace lists the
  URLs requested so far, oldest first.
\<close>

type_synonym net = "nat \<Rightarrow> string \<Rightarrow> response option"
type_synonym trace = "string list"

definition fetch :: "net \<Rightarrow> string \<Rightarrow> trace \<Rightarrow> (js_error + response) \<times> trace" where
  "fetch nw url tr =
     ((case nw (length tr) url of None \<Rightarrow> Inl FetchFailed | Some r \<Rightarrow> Inr r), tr @ [url])"

subsection \<open>JavaScript operators on values\<close>

definition truthy :: "json \<Rightarrow> bool" where
  "truthy v = (case v of
       JUndef \<Rightarrow> False
     | JNull \<Rightarrow> False
     | JBool b \<Rightarrow> b
     | JNum n \<Rightarrow> n \<noteq> 0
     | JStr s \<Rightarrow> s \<noteq> []
     | JArr _ \<Rightarrow> True
     | JObj _ \<Rightarrow> True)"

text \<open>\<open>a || b\<close>\<close>

definition js_or :: "json \<Rightarrow> json \<Rightarrow> json" where
  "js_or a b = (if truthy a then a else b)"

definition nullish :: "json \<Rightarrow> bool" where
  "nullish v = (v = JUndef \<or> v = JNull)"

fun string_of_nat :: "nat \<Rightarrow> string" where
  "string_of_nat n =
     (if n < 10 then [char_of (48 + n)]
      else string_of_nat (n div 10) @ [char_of (48 + n mod 10)])"

declare string_of_nat.simps [simp del]

text \<open>
  The own enumerable properties of a value, as object spread copies them: the
  members of an object, the indexed elements of an array, the indexed characters
  of a string, and none for any other value.
\<close>

definition own_props :: "json \<Rightarrow> (string \<times> json) list" where
  "own_props v = (case v of
       JObj kvs \<Rightarrow> kvs
     | JArr xs \<Rightarrow> zip (map string_of_nat [0..<length xs]) xs
     | JStr s \<Rightarrow> zip (map string_of_nat [0..<length s]) (map (\<lambda>c. JStr [c]) s)
     | _ \<Rightarrow> [])"

text \<open>
  Reading a property by name. Where a name occurs twice among the members, the
  later member is the value, as \<open>JSON.parse\<close> has it. The code reads only the names
  \<open>tokenURI\<close>, \<open>tokenId\<close>, \<open>success\<close>, \<open>certificates\<close>, \<open>count\<close>, \<open>error\<close>, \<open>balance\<close>
  and \<open>formatted\<close> this way, none of which is inherited from a prototype;
  \<open>length\<close> is read through \<open>js_length\<close>.
\<close>

definition read_prop :: "json \<Rightarrow> string \<Rightarrow> json" where
  "read_prop v k = (case map_of (rev (own_props v)) k of None \<Rightarrow> JUndef | Some x \<Rightarrow> x)"

text \<open>\<open>v.k\<close>: a \<open>TypeError\<close> on \<open>null\<close> and \<open>undefined\<close>.\<close>

definition get_prop :: "json \<Rightarrow> string \<Rightarrow> js_error + json" where
  "get_prop v k = (if nullish v then Inl TypeError else Inr (read_prop v k))"

definition js_length :: "json \<Rightarrow> json" where
  "js_length v = (case v of
       JArr xs \<Rightarrow> JNum (int (length xs))
     | JStr s \<Rightarrow> JNum (int (length s))
     | _ \<Rightarrow> read_prop v ''length'')"

text \<open>\<open>{...acc, ...v}\<close>: each own property of \<open>v\<close> is written in turn; a name already
  there keeps its place and takes the new value, a new name goes to the end.\<close>

definition spread :: "(string \<times> json) list \<Rightarrow> json \<Rightarrow> (string \<times> json) list" where
  "spread acc v = foldl (\<lambda>a (k, x). AList.update k x a) acc (own_props v)"

section \<open>Metadata\<close>

text \<open>
  \<open>resolveIPFS\<close>. \<open>uri.startsWith\<close> is a function only on a string, so the call
  throws on any other truthy value. \<open>replace\<close> rewrites the first occurrence of
  \<open>ipfs://\<close>, which after \<open>startsWith\<close> is the first seven characters.
\<close>

definition resolveIPFS :: "json \<Rightarrow> js_error + string" where
  "resolveIPFS uri =
     (if \<not> truthy uri then Inr []
      else case uri of
          JStr s \<Rightarrow>
            if take 7 s = ''ipfs://'' then Inr (''https://ipfs.io/ipfs/'' @ drop 7 s)
            else Inr s
        | _ \<Rightarrow> Inl TypeError)"

text \<open>The \<open>try\<close> block of \<open>fetchIPFSMetadata\<close>.\<close>

definition fetchIPFSMetadata_try :: "net \<Rightarrow> json \<Rightarrow> trace \<Rightarrow> (js_error + json) \<times> trace" where
  "fetchIPFSMetadata_try nw tokenURI tr =
     (if \<not> truthy tokenURI then (Inr JNull, tr)
      else case resolveIPFS tokenURI of
          Inl e \<Rightarrow> (Inl e, tr)
        | Inr resolvedURL \<Rightarrow>
            (case fetch nw resolvedURL tr of
                (Inl e, tr') \<Rightarrow> (Inl e, tr')
              | (Inr r, tr') \<Rightarrow>
                  if \<not> ok r then (Inl (BadStatus (status r)), tr')
                  else (json_of r, tr')))"

text \<open>\<open>fetchIPFSMetadata\<close>: the \<open>catch\<close> block logs the error and returns \<open>null\<close>.\<close>

definition fetchIPFSMetadata :: "net \<Rightarrow> json \<Rightarrow> trace \<Rightarrow> (js_error + json) \<times> trace" where
  "fetchIPFSMetadata nw tokenURI tr =
     (case fetchIPFSMetadata_try nw tokenURI tr of
          (Inl e, tr') \<Rightarrow> (Inr JNull, tr')
        | (Inr metadata, tr') \<Rightarrow> (Inr metadata, tr'))"

text \<open>
  The callback that \<open>getCertificates\<close> maps over \<open>data.certificates\<close>. Its \<open>try\<close>
  block reads \<open>cert.tokenURI\<close>, awaits the metadata and builds
  \<open>{...cert, metadata: metadata, ...metadata}\<close>.
\<close>

definition enrich :: "json \<Rightarrow> json \<Rightarrow> json" where
  "enrich cert metadata =
     JObj (spread (AList.update ''metadata'' metadata (spread [] cert)) metadata)"

definition cert_try :: "net \<Rightarrow> json \<Rightarrow> trace \<Rightarrow> (js_error + json) \<times> trace" where
  "cert_try nw cert tr =
     (case get_prop cert ''tokenURI'' of
          Inl e \<Rightarrow> (Inl e, tr)
        | Inr tokenURI \<Rightarrow>
            (case fetchIPFSMetadata nw tokenURI tr of
                (Inl e, tr') \<Rightarrow> (Inl e, tr')
              | (Inr metadata, tr') \<Rightarrow> (Inr (enrich cert metadata), tr')))"

text \<open>Its \<open>catch\<close> block reads \<open>cert.tokenId\<close> for the log line and returns \<open>cert\<close>.\<close>

definition cert_catch :: "json \<Rightarrow> js_error \<Rightarrow> js_error + json" where
  "cert_catch cert e =
     (case get_prop cert ''tokenId'' of Inl e' \<Rightarrow> Inl e' | Inr _ \<Rightarrow> Inr cert)"

definition cert_with_metadata :: "net \<Rightarrow> json \<Rightarrow> trace \<Rightarrow> (js_error + json) \<times> trace" where
  "cert_with_metadata nw cert tr =
     (case cert_try nw cert tr of
          (Inl e, tr') \<Rightarrow> (cert_catch cert e, tr')
        | (Inr c, tr') \<Rightarrow> (Inr c, tr'))"

section \<open>Backend discovery\<close>

definition POSSIBLE_BACKEND_URLS :: "string list" where
  "POSSIBLE_BACKEND_URLS =
     [''http://localhost:5000'', ''http://localhost:3001'', ''http://127.0.0.1:5000'']"

text \<open>The two module-level variables that \<open>findWorkingBackend\<close> assigns.\<close>

record globals =
  API_BASE_URL :: string
  HEALTH_URL :: string

definition initial_globals :: globals where
  "initial_globals =
     \<lparr>API_BASE_URL = ''http://localhost:5000/api'',
      HEALTH_URL = ''http://localhost:5000/health''\<rparr>"

text \<open>
  The loop of \<open>findWorkingBackend\<close> over the candidates still to try. The
  assignments to the two variables come before \<open>await response.json()\<close>, and that
  call is inside the \<open>try\<close>: a 2xx answer whose body is not JSON leaves the
  variables assigned and goes on with the next candidate.
\<close>

fun probe_backends ::
  "net \<Rightarrow> string list \<Rightarrow> globals \<Rightarrow> trace \<Rightarrow> (js_error + json) \<times> globals \<times> trace" where
  "probe_backends nw [] g tr = (Inl NoBackend, g, tr)"
| "probe_backends nw (baseUrl # rest) g tr =
     (case fetch nw (baseUrl @ ''/health'') tr of
          (Inl e, tr') \<Rightarrow> probe_backends nw rest g tr'
        | (Inr r, tr') \<Rightarrow>
            if ok r then
              (let g' = g\<lparr>API_BASE_URL := baseUrl @ ''/api'',
                          HEALTH_URL := baseUrl @ ''/health''\<rparr>
               in case json_of r of
                      Inl e \<Rightarrow> probe_backends nw rest g' tr'
                    | Inr payload \<Rightarrow> (Inr payload, g', tr'))
            else probe_backends nw rest g tr')"

definition findWorkingBackend ::
  "net \<Rightarrow> globals \<Rightarrow> trace \<Rightarrow> (js_error + json) \<times> globals \<times> trace" where
  "findWorkingBackend nw g tr = probe_backends nw POSSIBLE_BACKEND_URLS g tr"

section \<open>Certificates and balance from the backend\<close>

text \<open>
  \<open>data.certificates.map\<close> starts the callback on every element in order, so the
  metadata requests are issued in the order of the records.
\<close>

fun certs_with_metadata ::
  "net \<Rightarrow> json list \<Rightarrow> trace \<Rightarrow> (js_error + json) list \<times> trace" where
  "certs_with_metadata nw [] tr = ([], tr)"
| "certs_with_metadata nw (cert # certs) tr =
     (case cert_with_metadata nw cert tr of
          (r, tr') \<Rightarrow>
            (case certs_with_metadata nw certs tr' of
                 (rs, tr'') \<Rightarrow> (r # rs, tr'')))"

text \<open>\<open>Promise.all\<close>: all the values, or the rejection of the first that rejects.\<close>

fun promise_all :: "(js_error + 'a) list \<Rightarrow> js_error + 'a list" where
  "promise_all [] = Inr []"
| "promise_all (Inl e # rs) = Inl e"
| "promise_all (Inr x # rs) =
     (case promise_all rs of Inl e \<Rightarrow> Inl e | Inr xs \<Rightarrow> Inr (x # xs))"

text \<open>
  \<open>getCertificates\<close> from the point where its \<open>fetch\<close> has settled. The outer
  \<open>catch\<close> logs and rethrows. \<open>data.certificates.map\<close> is a function only on an
  array.
\<close>

definition getCertificates_settled ::
  "net \<Rightarrow> js_error + response \<Rightarrow> trace \<Rightarrow> (js_error + json) \<times> trace" where
  "getCertificates_settled nw settled tr =
     (case settled of
          Inl e \<Rightarrow> (Inl e, tr)
        | Inr r \<Rightarrow>
            if \<not> ok r then (Inl (BadStatus (status r)), tr)
            else case json_of r of
                Inl e \<Rightarrow> (Inl e, tr)
              | Inr data \<Rightarrow>
                  (case get_prop data ''success'' of
                       Inl e \<Rightarrow> (Inl e, tr)
                     | Inr success \<Rightarrow>
                         if truthy success \<and> truthy (read_prop data ''certificates'') then
                           (case read_prop data ''certificates'' of
                                JArr certs \<Rightarrow>
                                  (case certs_with_metadata nw certs tr of
                                       (rs, tr') \<Rightarrow>
                                         (case promise_all rs of
                                              Inl e \<Rightarrow> (Inl e, tr')
                                            | Inr certificatesWithMetadata \<Rightarrow>
                                                (Inr (JObj (AList.update ''certificates''
                                                       (JArr certificatesWithMetadata)
                                                       (spread [] data))), tr')))
                              | _ \<Rightarrow> (Inl TypeError, tr))
                         else (Inr data, tr)))"

definition getCertificates ::
  "net \<Rightarrow> globals \<Rightarrow> string \<Rightarrow> trace \<Rightarrow> (js_error + json) \<times> trace" where
  "getCertificates nw g walletAddress tr =
     (case fetch nw (API_BASE_URL g @ ''/certificates/wallet/'' @ walletAddress) tr of
          (settled, tr') \<Rightarrow> getCertificates_settled nw settled tr')"

definition getBalance_settled :: "js_error + response \<Rightarrow> js_error + json" where
  "getBalance_settled settled =
     (case settled of
          Inl e \<Rightarrow> Inl e
        | Inr r \<Rightarrow> if \<not> ok r then Inl (BadStatus (status r)) else json_of r)"

definition getBalance ::
  "net \<Rightarrow> globals \<Rightarrow> string \<Rightarrow> trace \<Rightarrow> (js_error + json) \<times> trace" where
  "getBalance nw g walletAddress tr =
     (case fetch nw (API_BASE_URL g @ ''/wallet/'' @ walletAddress @ ''/balance'') tr of
          (settled, tr') \<Rightarrow> (getBalance_settled settled, tr'))"

section \<open>The wallet provider\<close>

record chain_params =
  chainId :: string
  chainName :: string
  currencyName :: string
  currencySymbol :: string
  decimals :: nat
  rpcUrls :: "string list"
  blockExplorerUrls :: "string list"

datatype rpc =
    eth_chainId
  | wallet_switchEthereumChain string
  | wallet_addEthereumChain chain_params

text \<open>
  \<open>window.ethereum.request\<close>: the provider answers its \<open>n\<close>-th request (counted from
  0) with a value or throws. The log lists the requests made, oldest first.
\<close>

type_synonym provider = "nat \<Rightarrow> rpc \<Rightarrow> js_error + json"
type_synonym plog = "rpc list"

definition ethereum_request ::
  "provider \<Rightarrow> rpc \<Rightarrow> plog \<Rightarrow> (js_error + json) \<times> plog" where
  "ethereum_request p q pl = (p (length pl) q, pl @ [q])"

text \<open>\<open>switchError.code\<close>\<close>

definition error_code :: "js_error \<Rightarrow> int option" where
  "error_code e = (case e of ProviderError c \<Rightarrow> c | _ \<Rightarrow> None)"

definition apothemChainId :: string where
  "apothemChainId = ''0x33''"

definition apothem_params :: chain_params where
  "apothem_params =
     \<lparr>chainId = apothemChainId,
      chainName = ''XDC Apothem Network'',
      currencyName = ''XDC'', currencySymbol = ''XDC'', decimals = 18,
      rpcUrls = [''https://erpc.apothem.network''],
      blockExplorerUrls = [''https://explorer.apothem.network/'']\<rparr>"

definition ensureCorrectNetwork ::
  "provider option \<Rightarrow> plog \<Rightarrow> (js_error + unit) \<times> plog" where
  "ensureCorrectNetwork ethereum pl =
     (case ethereum of
          None \<Rightarrow> (Inr (), pl)
        | Some p \<Rightarrow>
            (case ethereum_request p eth_chainId pl of
                 (Inl e, pl1) \<Rightarrow> (Inl e, pl1)
               | (Inr chain, pl1) \<Rightarrow>
                   if chain \<noteq> JStr apothemChainId then
                     (case ethereum_request p (wallet_switchEthereumChain apothemChainId) pl1 of
                          (Inr _, pl2) \<Rightarrow> (Inr (), pl2)
                        | (Inl switchError, pl2) \<Rightarrow>
                            if error_code switchError = Some 4902 then
                              (case ethereum_request p (wallet_addEthereumChain apothem_params) pl2 of
                                   (Inl e, pl3) \<Rightarrow> (Inl e, pl3)
                                 | (Inr _, pl3) \<Rightarrow> (Inr (), pl3))
                            else (Inl switchError, pl2))
                   else (Inr (), pl1)))"

section \<open>Loading the dashboard\<close>

text \<open>The state variables of the component that \<open>fetchWalletData\<close> sets.\<close>

record dashboard =
  loading :: bool
  metadataLoading :: bool
  error :: "js_error option"
  certificates :: json
  certificateCount :: json
  balance :: json

definition initial_dashboard :: dashboard where
  "initial_dashboard =
     \<lparr>loading = True, metadataLoading = False, error = None,
      certificates = JArr [], certificateCount = JNum 0, balance = JNull\<rparr>"

text \<open>
  \<open>fetchDirectBalance\<close>. \<open>provider_getBalance address\<close> stands for
  \<open>new ethers.BrowserProvider(window.ethereum)\<close> followed by
  \<open>provider.getBalance(address)\<close>, and \<open>formatEther\<close> for \<open>ethers.formatEther\<close>;
  both belong to the ethers library and are parameters here.
\<close>

definition fetchDirectBalance_try ::
  "provider option \<Rightarrow> (string \<Rightarrow> js_error + int) \<Rightarrow> (int \<Rightarrow> string) \<Rightarrow> string \<Rightarrow>
   dashboard \<Rightarrow> js_error + dashboard" where
  "fetchDirectBalance_try ethereum provider_getBalance formatEther address st =
     (case ethereum of
          None \<Rightarrow> Inr st
        | Some _ \<Rightarrow>
            (case provider_getBalance address of
                 Inl e \<Rightarrow> Inl e
               | Inr bal \<Rightarrow> Inr (st\<lparr>balance := JStr (formatEther bal)\<rparr>)))"

definition fetchDirectBalance ::
  "provider option \<Rightarrow> (string \<Rightarrow> js_error + int) \<Rightarrow> (int \<Rightarrow> string) \<Rightarrow> string \<Rightarrow>
   dashboard \<Rightarrow> js_error + dashboard" where
  "fetchDirectBalance ethereum provider_getBalance formatEther address st =
     (case fetchDirectBalance_try ethereum provider_getBalance formatEther address st of
          Inl err \<Rightarrow> Inr (st\<lparr>balance := JStr ''Unable to load''\<rparr>)
        | Inr st' \<Rightarrow> Inr st')"

text \<open>The part of \<open>fetchWalletData\<close> under "Handle certificates response".\<close>

definition handle_certificates :: "js_error + json \<Rightarrow> dashboard \<Rightarrow> js_error + dashboard" where
  "handle_certificates certificatesResponse st =
     (case certificatesResponse of
          Inr certsData \<Rightarrow>
            (case get_prop certsData ''success'' of
                 Inl e \<Rightarrow> Inl e
               | Inr success \<Rightarrow>
                   if truthy success then
                     (let certs = js_or (read_prop certsData ''certificates'') (JArr [])
                      in Inr (st\<lparr>certificates := certs,
                                 certificateCount :=
                                   js_or (read_prop certsData ''count'') (js_length certs)\<rparr>))
                   else Inl (Failed (js_or (read_prop certsData ''error'')
                                           (JStr ''Failed to fetch certificates''))))
        | Inl reason \<Rightarrow> Inr (st\<lparr>certificates := JArr [], certificateCount := JNum 0\<rparr>))"

text \<open>The part of \<open>fetchWalletData\<close> under "Handle balance response".\<close>

definition handle_balance ::
  "provider option \<Rightarrow> (string \<Rightarrow> js_error + int) \<Rightarrow> (int \<Rightarrow> string) \<Rightarrow> string \<Rightarrow>
   js_error + json \<Rightarrow> dashboard \<Rightarrow> js_error + dashboard" where
  "handle_balance ethereum provider_getBalance formatEther address balanceResponse st =
     (case balanceResponse of
          Inr balanceData \<Rightarrow>
            (case get_prop balanceData ''success'' of
                 Inl e \<Rightarrow> Inl e
               | Inr success \<Rightarrow>
                   if truthy success then
                     (case get_prop (read_prop balanceData ''balance'') ''formatted'' of
                          Inl e \<Rightarrow> Inl e
                        | Inr formatted \<Rightarrow> Inr (st\<lparr>balance := formatted\<rparr>))
                   else fetchDirectBalance ethereum provider_getBalance formatEther address st)
        | Inl reason \<Rightarrow>
            fetchDirectBalance ethereum provider_getBalance formatEther address st)"

text \<open>
  \<open>Promise.allSettled([apiService.getCertificates(address),
  apiService.getBalance(address)])\<close>: the array holds the two calls already
  started, so both requests are issued, certificates first, before either answer
  is handled; the metadata requests follow.
\<close>

definition settle_both ::
  "net \<Rightarrow> globals \<Rightarrow> string \<Rightarrow> trace \<Rightarrow> (js_error + json) \<times> (js_error + json) \<times> trace" where
  "settle_both nw g address tr =
     (case fetch nw (API_BASE_URL g @ ''/certificates/wallet/'' @ address) tr of
        (settled_c, tr1) \<Rightarrow>
     (case fetch nw (API_BASE_URL g @ ''/wallet/'' @ address @ ''/balance'') tr1 of
        (settled_b, tr2) \<Rightarrow>
     (case getCertificates_settled nw settled_c tr2 of
        (certificatesResponse, tr3) \<Rightarrow>
          (certificatesResponse, getBalance_settled settled_b, tr3))))"

text \<open>
  The \<open>try\<close> block of \<open>fetchWalletData\<close>: the error thrown, if any, and the state,
  trace and provider log at that point.
\<close>

definition fetchWalletData_try ::
  "net \<Rightarrow> globals \<Rightarrow> provider option \<Rightarrow> (string \<Rightarrow> js_error + int) \<Rightarrow> (int \<Rightarrow> string) \<Rightarrow>
   string \<Rightarrow> dashboard \<Rightarrow> trace \<Rightarrow> plog \<Rightarrow> js_error option \<times> dashboard \<times> trace \<times> plog" where
  "fetchWalletData_try nw g ethereum provider_getBalance formatEther address st tr pl =
     (let st1 = st\<lparr>loading := True, metadataLoading := True, error := None\<rparr> in
      case ensureCorrectNetwork ethereum pl of
          (Inl e, pl') \<Rightarrow> (Some e, st1, tr, pl')
        | (Inr _, pl') \<Rightarrow>
            (case settle_both nw g address tr of
               (certificatesResponse, balanceResponse, tr') \<Rightarrow>
                 (case handle_certificates certificatesResponse st1 of
                      Inl e \<Rightarrow> (Some e, st1, tr', pl')
                    | Inr st2 \<Rightarrow>
                        (case handle_balance ethereum provider_getBalance formatEther address
                                balanceResponse st2 of
                             Inl e \<Rightarrow> (Some e, st2, tr', pl')
                           | Inr st3 \<Rightarrow>
                               (None, st3\<lparr>loading := False, metadataLoading := False\<rparr>,
                                tr', pl')))))"

text \<open>\<open>fetchWalletData\<close>: the \<open>catch\<close> block stores the error and clears both flags.\<close>

definition fetchWalletData ::
  "net \<Rightarrow> globals \<Rightarrow> provider option \<Rightarrow> (string \<Rightarrow> js_error + int) \<Rightarrow> (int \<Rightarrow> string) \<Rightarrow>
   string \<Rightarrow> dashboard \<Rightarrow> trace \<Rightarrow> plog \<Rightarrow> dashboard \<times> trace \<times> plog" where
  "fetchWalletData nw g ethereum provider_getBalance formatEther address st tr pl =
     (case fetchWalletData_try nw g ethereum provider_getBalance formatEther address st tr pl of
          (None, st', tr', pl') \<Rightarrow> (st', tr', pl')
        | (Some err, st', tr', pl') \<Rightarrow>
            (st'\<lparr>error := Some err, loading := False, metadataLoading := False\<rparr>, tr', pl'))"

section \<open>Own properties and sample inputs\<close>

text \<open>\<open>Object.hasOwn(v, k)\<close> for the enumerable properties.\<close>

definition has_own :: "json \<Rightarrow> string \<Rightarrow> bool" where
  "has_own v k = (k \<in> set (map fst (own_props v)))"

text \<open>A network on which every request fails.\<close>

definition no_network :: net where
  "no_network n url = None"

text \<open>The record of the scenario in the specification, and one without a locator.\<close>

definition cert_x :: json where
  "cert_x = JObj [(''tokenId'', JNum 1), (''tokenURI'', JStr ''ipfs://X'')]"

definition cert_no_uri :: json where
  "cert_no_uri = JObj [(''tokenId'', JNum 1)]"

text \<open>A record with a \<open>name\<close> of its own whose metadata document has a \<open>name\<close> too.\<close>

definition cert_named :: json where
  "cert_named =
     JObj [(''tokenId'', JNum 7), (''name'', JStr ''Raw''),
           (''tokenURI'', JStr ''https://meta.example/7.json'')]"

definition metadata_named :: json where
  "metadata_named = JObj [(''name'', JStr ''Meta'')]"

definition net_named :: net where
  "net_named n url =
     (if url = ''https://meta.example/7.json''
      then Some (Response 200 (Some (JObj [(''name'', JStr ''Meta'')])))
      else None)"

text \<open>A record whose metadata document has a \<open>tokenId\<close> of its own.\<close>

definition cert_id :: json where
  "cert_id = JObj [(''tokenId'', JNum 1), (''tokenURI'', JStr ''https://meta.example/1.json'')]"

definition net_id :: net where
  "net_id n url =
     (if url = ''https://meta.example/1.json''
      then Some (Response 200 (Some (JObj [(''tokenId'', JNum 999)])))
      else None)"

text \<open>A backend whose list of certificates holds \<open>null\<close>.\<close>

definition net_null_cert :: net where
  "net_null_cert n url =
     (if url = ''http://localhost:5000/api/certificates/wallet/0xabc''
      then Some (Response 200
             (Some (JObj [(''success'', JBool True), (''certificates'', JArr [JNull])])))
      else None)"

text \<open>
  The liveness probe of a candidate, issued as request \<open>n\<close>, gets no 2xx answer;
  and: it gets no 2xx answer with a JSON body.
\<close>

definition no_2xx :: "net \<Rightarrow> nat \<Rightarrow> string \<Rightarrow> bool" where
  "no_2xx nw n baseUrl =
     (case nw n (baseUrl @ ''/health'') of None \<Rightarrow> True | Some r \<Rightarrow> \<not> ok r)"

definition no_json_2xx :: "net \<Rightarrow> nat \<Rightarrow> string \<Rightarrow> bool" where
  "no_json_2xx nw n baseUrl =
     (case nw n (baseUrl @ ''/health'') of
          None \<Rightarrow> True
        | Some r \<Rightarrow> \<not> ok r \<or> body r = None)"

text \<open>
  Port 5000 answers the probe with status 200 and a body that is not JSON, port
  3001 with status 200 and a JSON body.
\<close>

definition health_payload :: json where
  "health_payload = JObj [(''status'', JStr ''OK'')]"

definition net_html_then_json :: net where
  "net_html_then_json n url =
     (if url = ''http://localhost:5000/health'' then Some (Response 200 None)
      else if url = ''http://localhost:3001/health''
      then Some (Response 200 (Some (JObj [(''status'', JStr ''OK'')])))
      else None)"

text \<open>
  A provider on another chain that does not know the Apothem chain (error code
  4902), one whose user rejects the switch (error code 4001), and one already on
  the Apothem chain.
\<close>

definition provider_unrecognised :: provider where
  "provider_unrecognised n q =
     (case q of
          eth_chainId \<Rightarrow> Inr (JStr ''0x1'')
        | wallet_switchEthereumChain c \<Rightarrow> Inl (ProviderError (Some 4902))
        | wallet_addEthereumChain d \<Rightarrow> Inr JNull)"

definition provider_rejecting :: provider where
  "provider_rejecting n q =
     (case q of
          eth_chainId \<Rightarrow> Inr (JStr ''0x1'')
        | wallet_switchEthereumChain c \<Rightarrow> Inl (ProviderError (Some 4001))
        | wallet_addEthereumChain d \<Rightarrow> Inr JNull)"

definition provider_apothem :: provider where
  "provider_apothem n q =
     (case q of
          eth_chainId \<Rightarrow> Inr (JStr ''0x33'')
        | wallet_switchEthereumChain c \<Rightarrow> Inr JNull
        | wallet_addEthereumChain d \<Rightarrow> Inr JNull)"

text \<open>
  Stand-ins for the two ethers calls in sample runs: the account \<open>sample_wallet\<close>
  holds 1.5 XDC, and the call throws for any other address.
\<close>

definition sample_wallet :: string where
  "sample_wallet = ''0x1111111111111111111111111111111111111111''"

definition sample_getBalance :: "string \<Rightarrow> js_error + int" where
  "sample_getBalance address =
     (if address = sample_wallet then Inr 1500000000000000000 else Inl TypeError)"

definition sample_formatEther :: "int \<Rightarrow> string" where
  "sample_formatEther wei = (if wei = 1500000000000000000 then ''1.5'' else ''0.0'')"

text \<open>
  The backend's balance call did not produce a payload with a truthy \<open>success\<close>:
  the request failed, the status is not 2xx, the body is not JSON, or the payload
  is a value whose \<open>success\<close> is falsy.
\<close>

definition balance_unavailable :: "js_error + response \<Rightarrow> bool" where
  "balance_unavailable settled =
     (case settled of
          Inl e \<Rightarrow> True
        | Inr r \<Rightarrow>
            \<not> ok r \<or>
            (case body r of
                 None \<Rightarrow> True
               | Some d \<Rightarrow> \<not> nullish d \<and> \<not> truthy (read_prop d ''success'')))"

text \<open>A backend that answers the certificates call with \<open>success: false\<close> and nothing else.\<close>

definition net_refused :: net where
  "net_refused n url =
     (if url = ''http://localhost:5000/api/certificates/wallet/0x1111111111111111111111111111111111111111''
      then Some (Response 200
             (Some (JObj [(''success'', JBool False), (''error'', JStr ''Wallet not found'')])))
      else None)"

text \<open>
  A backend that lists the record \<open>cert_x\<close> for the wallet and answers nothing
  else: neither the balance call nor the gateway request.
\<close>

definition listing :: json where
  "listing = JObj [(''success'', JBool True), (''certificates'', JArr [cert_x]), (''count'', JNum 1)]"

definition net_listing :: net where
  "net_listing n url =
     (if url = ''http://localhost:5000/api/certificates/wallet/0x1111111111111111111111111111111111111111''
      then Some (Response 200 (Some listing))
      else None)"

definition listing_enriched :: json where
  "listing_enriched =
     JObj [(''success'', JBool True),
           (''certificates'',
              JArr [JObj [(''tokenId'', JNum 1), (''tokenURI'', JStr ''ipfs://X''),
                          (''metadata'', JNull)]]),
           (''count'', JNum 1)]"

text \<open>
  A backend that lists the record \<open>cert_x\<close> and reports a balance; the gateway
  does not answer.
\<close>

definition balance_payload :: json where
  "balance_payload =
     JObj [(''success'', JBool True), (''balance'', JObj [(''formatted'', JStr ''2.25'')])]"

definition net_both :: net where
  "net_both n url =
     (if url = ''http://localhost:5000/api/certificates/wallet/0x1111111111111111111111111111111111111111''
      then Some (Response 200 (Some listing))
      else if url = ''http://localhost:5000/api/wallet/0x1111111111111111111111111111111111111111/balance''
      then Some (Response 200 (Some balance_payload))
      else None)"

text \<open>
  The error, if any, that \<open>fetchWalletData\<close> throws while it handles the settled
  certificates call: none when the call was rejected; a \<open>TypeError\<close> when the
  payload is \<open>null\<close>; the error built from the payload's \<open>error\<close> when its
  \<open>success\<close> is falsy.
\<close>

definition records_error :: "js_error + json \<Rightarrow> js_error option" where
  "records_error certificatesResponse =
     (case certificatesResponse of
          Inl reason \<Rightarrow> None
        | Inr d \<Rightarrow>
            if nullish d then Some TypeError
            else if truthy (read_prop d ''success'') then None
            else Some (Failed (js_or (read_prop d ''error'')
                                     (JStr ''Failed to fetch certificates''))))"

text \<open>
  The error, if any, that it throws while it handles the settled balance call:
  none when the call was rejected; a \<open>TypeError\<close> when the payload is \<open>null\<close>, or
  has a truthy \<open>success\<close> and a \<open>balance\<close> that is \<open>null\<close> or absent.
\<close>

definition balance_error :: "js_error + json \<Rightarrow> js_error option" where
  "balance_error balanceResponse =
     (case balanceResponse of
          Inl reason \<Rightarrow> None
        | Inr b \<Rightarrow>
            if nullish b then Some TypeError
            else if truthy (read_prop b ''success'') \<and> nullish (read_prop b ''balance'')
            then Some TypeError
            else None)"

section \<open>Properties of the merge\<close>

lemma distinct_spread:
  "distinct (map fst acc) \<Longrightarrow> distinct (map fst (spread acc v))"
proof -
  have "distinct (map fst acc) \<Longrightarrow>
        distinct (map fst (foldl (\<lambda>a (k, x). AList.update k x a) acc ps))" for ps
    by (induction ps arbitrary: acc) (auto simp: distinct_update)
  then show "distinct (map fst acc) \<Longrightarrow> distinct (map fst (spread acc v))"
    by (simp add: spread_def)
qed

lemma map_of_foldl_update:
  "map_of (foldl (\<lambda>a (k, x). AList.update k x a) acc ps) k =
     (case map_of (rev ps) k of None \<Rightarrow> map_of acc k | Some x \<Rightarrow> Some x)"
proof (induction ps arbitrary: acc)
  case Nil
  show ?case by simp
next
  case (Cons p ps)
  obtain k' x' where p: "p = (k', x')" by (cases p)
  show ?case
    by (simp add: p Cons.IH update_conv' map_add_def split: option.splits)
qed

lemma map_of_spread:
  "map_of (spread acc v) k =
     (case map_of (rev (own_props v)) k of None \<Rightarrow> map_of acc k | Some x \<Rightarrow> Some x)"
  by (simp add: spread_def map_of_foldl_update)

lemma map_of_rev_distinct:
  "distinct (map fst xs) \<Longrightarrow> map_of (rev xs) = map_of xs"
proof (induction xs)
  case Nil
  show ?case by simp
next
  case (Cons p xs)
  obtain k v where p: "p = (k, v)" by (cases p)
  from Cons.prems p have notin: "k \<notin> fst ` set xs" and d: "distinct (map fst xs)"
    by auto
  have "map_of xs k = None" using notin by (simp add: map_of_eq_None_iff)
  then show ?case
    using Cons.IH [OF d] by (auto simp: p map_add_def fun_eq_iff split: option.splits)
qed

text \<open>What a property of the enriched record is.\<close>

lemma read_prop_enrich:
  "read_prop (enrich cert metadata) k =
     (case map_of (rev (own_props metadata)) k of
          Some x \<Rightarrow> x
        | None \<Rightarrow> if k = ''metadata'' then metadata else read_prop cert k)"
proof -
  let ?inner = "AList.update ''metadata'' metadata (spread [] cert)"
  have d: "distinct (map fst (spread ?inner metadata))"
    by (intro distinct_spread) (simp add: distinct_update distinct_spread)
  have "read_prop (enrich cert metadata) k =
        (case map_of (spread ?inner metadata) k of None \<Rightarrow> JUndef | Some x \<Rightarrow> x)"
    by (simp add: read_prop_def enrich_def own_props_def map_of_rev_distinct [OF d])
  then show ?thesis
    by (simp add: map_of_spread update_conv' read_prop_def split: option.splits)
qed

lemma map_of_rev_None: "map_of (rev ps) k = None \<longleftrightarrow> k \<notin> set (map fst ps)"
proof -
  have "map_of (rev ps) k = None \<longleftrightarrow> k \<notin> fst ` set (rev ps)"
    by (rule map_of_eq_None_iff)
  then show ?thesis by simp
qed

lemma read_prop_enrich_own:
  assumes "has_own m k"
  shows "read_prop (enrich cert m) k = read_prop m k"
proof (cases "map_of (rev (own_props m)) k")
  case None
  with assms show ?thesis by (simp add: map_of_rev_None has_own_def)
next
  case (Some x)
  then show ?thesis by (simp add: read_prop_enrich) (simp add: read_prop_def)
qed

lemma read_prop_enrich_other:
  assumes "\<not> has_own m k" and "k \<noteq> ''metadata''"
  shows "read_prop (enrich cert m) k = read_prop cert k"
proof -
  from assms(1) have "map_of (rev (own_props m)) k = None"
    by (simp add: map_of_rev_None has_own_def)
  with assms(2) show ?thesis by (simp add: read_prop_enrich)
qed

section \<open>The metadata helper and the per-record callback\<close>

lemma fetchIPFSMetadata_falsy:
  "\<not> truthy u \<Longrightarrow> fetchIPFSMetadata nw u tr = (Inr JNull, tr)"
  by (simp add: fetchIPFSMetadata_def fetchIPFSMetadata_try_def)

lemma cert_with_metadata_enrich:
  "\<not> nullish cert \<Longrightarrow> fetchIPFSMetadata nw (read_prop cert ''tokenURI'') tr = (Inr m, tr')
   \<Longrightarrow> cert_with_metadata nw cert tr = (Inr (enrich cert m), tr')"
  by (simp add: cert_with_metadata_def cert_try_def get_prop_def)

lemma cert_with_metadata_try:
  assumes "\<not> nullish cert"
    and "fetchIPFSMetadata_try nw (read_prop cert ''tokenURI'') tr = (Inr m, tr')"
  shows "cert_with_metadata nw cert tr = (Inr (enrich cert m), tr')"
  using assms by (simp add: cert_with_metadata_def cert_try_def get_prop_def fetchIPFSMetadata_def)

lemma fetchIPFSMetadata_Inr: "\<exists>m tr'. fetchIPFSMetadata nw u tr = (Inr m, tr')"
  by (cases "fetchIPFSMetadata_try nw u tr") (auto simp: fetchIPFSMetadata_def split: sum.splits)

lemma fetchIPFSMetadata_result:
  "\<exists>m tr'. fetchIPFSMetadata nw u tr = (Inr m, tr') \<and>
     (m = JNull \<or> fetchIPFSMetadata_try nw u tr = (Inr m, tr'))"
  by (cases "fetchIPFSMetadata_try nw u tr") (auto simp: fetchIPFSMetadata_def split: sum.splits)

lemma fetchIPFSMetadata_try_Inr:
  assumes "fetchIPFSMetadata_try nw u tr = (Inr m, tr')"
  shows "m = JNull \<or>
         (\<exists>url r. resolveIPFS u = Inr url \<and> nw (length tr) url = Some r \<and> ok r \<and>
                   body r = Some m)"
  using assms
  by (auto simp: fetchIPFSMetadata_try_def fetch_def json_of_def
      split: if_splits sum.splits option.splits)

lemma has_own_nullish: "nullish m \<Longrightarrow> \<not> has_own m k"
  by (auto simp: nullish_def has_own_def own_props_def)

lemma read_prop_enrich_metadata:
  assumes "\<not> has_own m ''metadata''"
  shows "read_prop (enrich cert m) ''metadata'' = m"
proof -
  from assms have "map_of (rev (own_props m)) ''metadata'' = None"
    by (simp add: map_of_rev_None has_own_def)
  then show ?thesis by (simp add: read_prop_enrich)
qed

section \<open>C1: precedence in the merge\<close>

text \<open>
  C1 as stated (fields of the raw record win over same-named fields of the
  metadata document) fails: the record \<open>cert_named\<close> has \<open>name = "Raw"\<close>, its
  metadata document has \<open>name = "Meta"\<close>, and the enriched record has
  \<open>name = "Meta"\<close>, since \<open>...metadata\<close> is spread last.
\<close>

theorem raw_name_overwritten:
  "fst (cert_with_metadata net_named cert_named []) =
     Inr (JObj [(''tokenId'', JNum 7), (''name'', JStr ''Meta''),
                (''tokenURI'', JStr ''https://meta.example/7.json''),
                (''metadata'', JObj [(''name'', JStr ''Meta'')])])"
  by (simp add: cert_with_metadata_def cert_try_def get_prop_def nullish_def cert_named_def
      read_prop_def own_props_def fetchIPFSMetadata_def fetchIPFSMetadata_try_def truthy_def
      resolveIPFS_def fetch_def net_named_def ok_def json_of_def enrich_def spread_def)

text \<open>
  C1, amended: for every record whose metadata document was fetched successfully,
  the callback returns the merge of the two, in which every field of the metadata
  document has the metadata document's value (metadata fields take precedence),
  and a field of the raw record keeps its raw value when its name is not
  \<open>metadata\<close> and the metadata document has no field of that name.
\<close>

theorem metadata_fields_take_precedence:
  assumes "\<not> nullish cert"
    and "fetchIPFSMetadata_try nw (read_prop cert ''tokenURI'') tr = (Inr m, tr')"
  shows "cert_with_metadata nw cert tr = (Inr (enrich cert m), tr') \<and>
         (\<forall>k. has_own m k \<longrightarrow> read_prop (enrich cert m) k = read_prop m k) \<and>
         (\<forall>k. \<not> has_own m k \<and> k \<noteq> ''metadata'' \<longrightarrow>
              read_prop (enrich cert m) k = read_prop cert k)"
  using cert_with_metadata_try [OF assms]
  by (simp add: read_prop_enrich_own read_prop_enrich_other)

text \<open>The amended C1 at \<open>cert_named\<close>: \<open>name\<close> is the document's, \<open>tokenId\<close> the record's.\<close>

theorem metadata_fields_take_precedence_witness:
  "\<not> nullish cert_named \<and>
   fetchIPFSMetadata_try net_named (read_prop cert_named ''tokenURI'') [] =
     (Inr metadata_named, [''https://meta.example/7.json'']) \<and>
   cert_with_metadata net_named cert_named [] =
     (Inr (enrich cert_named metadata_named), [''https://meta.example/7.json'']) \<and>
   read_prop (enrich cert_named metadata_named) ''name'' = JStr ''Meta'' \<and>
   read_prop (enrich cert_named metadata_named) ''tokenId'' = JNum 7"
proof -
  have h1: "\<not> nullish cert_named"
    by (simp add: nullish_def cert_named_def)
  have h2: "fetchIPFSMetadata_try net_named (read_prop cert_named ''tokenURI'') [] =
              (Inr metadata_named, [''https://meta.example/7.json''])"
    by (simp add: fetchIPFSMetadata_try_def read_prop_def own_props_def cert_named_def
        truthy_def resolveIPFS_def fetch_def net_named_def ok_def json_of_def metadata_named_def)
  have own: "has_own metadata_named ''name''" "\<not> has_own metadata_named ''tokenId''"
    by (simp_all add: has_own_def own_props_def metadata_named_def)
  have vals: "read_prop metadata_named ''name'' = JStr ''Meta''"
    "read_prop cert_named ''tokenId'' = JNum 7"
    by (simp_all add: read_prop_def own_props_def metadata_named_def cert_named_def)
  from metadata_fields_take_precedence [OF h1 h2] own vals h1 h2
  show ?thesis by simp
qed

section \<open>C3: a record whose metadata fetch fails\<close>

text \<open>
  C3 (a record whose metadata fetch fails is returned exactly as it was) at the
  record of the specification's scenario, with the network down: the request to
  the gateway is made, \<open>fetchIPFSMetadata\<close> swallows the failure and returns
  \<open>null\<close>, the \<open>catch\<close> block that would return the original record is not
  entered, and the record comes back with a field \<open>metadata: null\<close> added.
\<close>

theorem failed_metadata_adds_null_field:
  "cert_with_metadata no_network cert_x [] =
     (Inr (JObj [(''tokenId'', JNum 1), (''tokenURI'', JStr ''ipfs://X''),
                 (''metadata'', JNull)]),
      [''https://ipfs.io/ipfs/X''])"
  by (simp add: cert_with_metadata_def cert_try_def get_prop_def nullish_def cert_x_def
      read_prop_def own_props_def fetchIPFSMetadata_def fetchIPFSMetadata_try_def truthy_def
      resolveIPFS_def fetch_def no_network_def ok_def json_of_def enrich_def spread_def)

section \<open>C5: the identifier of an enriched record\<close>

text \<open>
  C5 as stated (the enriched record always has the raw record's \<open>tokenId\<close>)
  fails: the metadata document of \<open>cert_id\<close> has a field \<open>tokenId = 999\<close>, which
  is spread over the record's \<open>tokenId = 1\<close>.
\<close>

theorem tokenId_overwritten:
  "fst (cert_with_metadata net_id cert_id []) =
     Inr (JObj [(''tokenId'', JNum 999), (''tokenURI'', JStr ''https://meta.example/1.json''),
                (''metadata'', JObj [(''tokenId'', JNum 999)])])"
  by (simp add: cert_with_metadata_def cert_try_def get_prop_def nullish_def cert_id_def
      read_prop_def own_props_def fetchIPFSMetadata_def fetchIPFSMetadata_try_def truthy_def
      resolveIPFS_def fetch_def net_id_def ok_def json_of_def enrich_def spread_def)

text \<open>
  C5, amended: for every raw record and whatever the metadata fetch returns, the
  callback returns the merge of the record and that metadata, whose \<open>tokenId\<close> is
  the raw record's unless the metadata document has a field \<open>tokenId\<close> of its
  own, and is the document's in that case.
\<close>

theorem tokenId_kept_unless_in_metadata:
  assumes "\<not> nullish cert"
  shows "\<exists>m tr'. fetchIPFSMetadata nw (read_prop cert ''tokenURI'') tr = (Inr m, tr') \<and>
           cert_with_metadata nw cert tr = (Inr (enrich cert m), tr') \<and>
           read_prop (enrich cert m) ''tokenId'' =
             (if has_own m ''tokenId'' then read_prop m ''tokenId''
              else read_prop cert ''tokenId'')"
proof -
  obtain m tr' where f: "fetchIPFSMetadata nw (read_prop cert ''tokenURI'') tr = (Inr m, tr')"
    using fetchIPFSMetadata_Inr by blast
  have "cert_with_metadata nw cert tr = (Inr (enrich cert m), tr')"
    using assms f by (rule cert_with_metadata_enrich)
  moreover have "read_prop (enrich cert m) ''tokenId'' =
             (if has_own m ''tokenId'' then read_prop m ''tokenId''
              else read_prop cert ''tokenId'')"
    by (simp add: read_prop_enrich_own read_prop_enrich_other)
  ultimately show ?thesis using f by blast
qed

text \<open>The amended C5 at the record \<open>cert_id\<close> on a network that is down.\<close>

theorem tokenId_kept_unless_in_metadata_witness:
  "\<not> nullish cert_id \<and>
   cert_with_metadata no_network cert_id [] =
     (Inr (enrich cert_id JNull), [''https://meta.example/1.json'']) \<and>
   read_prop (enrich cert_id JNull) ''tokenId'' = JNum 1"
proof -
  have h: "\<not> nullish cert_id" by (simp add: nullish_def cert_id_def)
  have f: "fetchIPFSMetadata no_network (read_prop cert_id ''tokenURI'') [] =
             (Inr JNull, [''https://meta.example/1.json''])"
    by (simp add: fetchIPFSMetadata_def fetchIPFSMetadata_try_def read_prop_def own_props_def
        cert_id_def truthy_def resolveIPFS_def fetch_def no_network_def)
  have v: "read_prop cert_id ''tokenId'' = JNum 1"
    by (simp add: read_prop_def own_props_def cert_id_def)
  have n: "\<not> has_own JNull ''tokenId''"
    by (simp add: has_own_def own_props_def)
  from tokenId_kept_unless_in_metadata [OF h, of no_network "[]"]
  obtain m tr' where
    a: "fetchIPFSMetadata no_network (read_prop cert_id ''tokenURI'') [] = (Inr m, tr')" and
    b: "cert_with_metadata no_network cert_id [] = (Inr (enrich cert_id m), tr')" and
    c: "read_prop (enrich cert_id m) ''tokenId'' =
          (if has_own m ''tokenId'' then read_prop m ''tokenId''
           else read_prop cert_id ''tokenId'')"
    by blast
  from a f have "m = JNull" and "tr' = [''https://meta.example/1.json'']" by simp_all
  with b c h v n show ?thesis by simp
qed

section \<open>C9: a record without a content locator\<close>

text \<open>
  C9 as stated (a record whose locator is empty or absent is returned unchanged)
  fails: \<open>cert_no_uri\<close> comes back with a field \<open>metadata: null\<close> added. No
  request is made.
\<close>

theorem no_locator_adds_null_field:
  "cert_with_metadata no_network cert_no_uri [] =
     (Inr (JObj [(''tokenId'', JNum 1), (''metadata'', JNull)]), []) \<and>
   fst (cert_with_metadata no_network cert_no_uri []) \<noteq> Inr cert_no_uri"
  by (simp add: cert_with_metadata_def cert_try_def get_prop_def nullish_def cert_no_uri_def
      read_prop_def own_props_def fetchIPFSMetadata_def fetchIPFSMetadata_try_def truthy_def
      enrich_def spread_def)

text \<open>
  C9, amended: for every record whose \<open>tokenURI\<close> is empty or absent, no request
  is made (the trace is unchanged) and the callback returns the record with its
  field \<open>metadata\<close> set to \<open>null\<close> and every other field as in the record.
\<close>

theorem no_locator_no_request:
  assumes "\<not> nullish cert" and "\<not> truthy (read_prop cert ''tokenURI'')"
  shows "cert_with_metadata nw cert tr = (Inr (enrich cert JNull), tr) \<and>
         read_prop (enrich cert JNull) ''metadata'' = JNull \<and>
         (\<forall>k. k \<noteq> ''metadata'' \<longrightarrow> read_prop (enrich cert JNull) k = read_prop cert k)"
proof -
  have "fetchIPFSMetadata nw (read_prop cert ''tokenURI'') tr = (Inr JNull, tr)"
    using assms(2) by (rule fetchIPFSMetadata_falsy)
  with assms(1) have "cert_with_metadata nw cert tr = (Inr (enrich cert JNull), tr)"
    by (rule cert_with_metadata_enrich)
  moreover have n: "\<not> has_own JNull k" for k
    by (simp add: has_own_nullish nullish_def)
  ultimately show ?thesis
    by (simp add: read_prop_enrich_metadata read_prop_enrich_other)
qed

text \<open>The amended C9 at \<open>cert_no_uri\<close>, on a network that would answer.\<close>

theorem no_locator_no_request_witness:
  "\<not> nullish cert_no_uri \<and> \<not> truthy (read_prop cert_no_uri ''tokenURI'') \<and>
   cert_with_metadata net_named cert_no_uri [] = (Inr (enrich cert_no_uri JNull), []) \<and>
   read_prop (enrich cert_no_uri JNull) ''metadata'' = JNull \<and>
   read_prop (enrich cert_no_uri JNull) ''tokenId'' = JNum 1"
proof -
  have h1: "\<not> nullish cert_no_uri" by (simp add: nullish_def cert_no_uri_def)
  have h2: "\<not> truthy (read_prop cert_no_uri ''tokenURI'')"
    by (simp add: truthy_def read_prop_def own_props_def cert_no_uri_def)
  have v: "read_prop cert_no_uri ''tokenId'' = JNum 1"
    by (simp add: read_prop_def own_props_def cert_no_uri_def)
  from no_locator_no_request [OF h1 h2, of net_named "[]"] h1 h2 v
  show ?thesis by simp
qed

section \<open>C10: what the metadata helper can throw\<close>

text \<open>
  C10 as stated (the \<open>catch\<close> block of the callback is unreachable) fails: when
  the backend's list of certificates holds \<open>null\<close>, reading \<open>cert.tokenURI\<close>
  throws inside the \<open>try\<close> block, the \<open>catch\<close> block is entered, throws in
  turn on \<open>cert.tokenId\<close>, and \<open>getCertificates\<close> rejects.
\<close>

theorem null_record_enters_catch:
  "fst (cert_try net_null_cert JNull [''http://localhost:5000/api/certificates/wallet/0xabc''])
     = Inl TypeError \<and>
   fst (getCertificates net_null_cert initial_globals ''0xabc'' []) = Inl TypeError"
  by (simp add: getCertificates_def getCertificates_settled_def fetch_def net_null_cert_def
      initial_globals_def ok_def json_of_def get_prop_def nullish_def read_prop_def
      own_props_def truthy_def cert_with_metadata_def cert_try_def cert_catch_def)

text \<open>
  C10, amended: for every input and every fetch outcome \<open>fetchIPFSMetadata\<close>
  returns, without throwing, either \<open>null\<close> or the parsed body of a 2xx answer to
  the resolved URL; and the \<open>try\<close> block of the callback throws, so that its
  \<open>catch\<close> block is entered, exactly when the element is \<open>null\<close> or
  \<open>undefined\<close>: for every other element the \<open>catch\<close> block is unreachable.
\<close>

theorem fetchIPFSMetadata_never_throws:
  "(\<exists>m tr'. fetchIPFSMetadata nw u tr = (Inr m, tr') \<and>
      (m = JNull \<or>
       (\<exists>url r. resolveIPFS u = Inr url \<and> nw (length tr) url = Some r \<and> ok r \<and>
                 body r = Some m))) \<and>
   ((\<exists>e tr'. cert_try nw cert tr = (Inl e, tr')) \<longleftrightarrow> nullish cert)"
proof -
  obtain m tr' where f: "fetchIPFSMetadata nw u tr = (Inr m, tr')"
    and d: "m = JNull \<or> fetchIPFSMetadata_try nw u tr = (Inr m, tr')"
    using fetchIPFSMetadata_result by blast
  have a: "m = JNull \<or>
       (\<exists>url r. resolveIPFS u = Inr url \<and> nw (length tr) url = Some r \<and> ok r \<and>
                 body r = Some m)"
    using d fetchIPFSMetadata_try_Inr by blast
  have b: "(\<exists>e tr'. cert_try nw cert tr = (Inl e, tr')) \<longleftrightarrow> nullish cert"
  proof (cases "nullish cert")
    case True
    then show ?thesis by (simp add: cert_try_def get_prop_def)
  next
    case False
    obtain m' tr'' where "fetchIPFSMetadata nw (read_prop cert ''tokenURI'') tr = (Inr m', tr'')"
      using fetchIPFSMetadata_Inr by blast
    with False show ?thesis by (simp add: cert_try_def get_prop_def)
  qed
  from f a b show ?thesis by blast
qed

text \<open>The amended C10 at the record \<open>cert_x\<close> and its locator, with the network down.\<close>

theorem fetchIPFSMetadata_never_throws_witness:
  "(\<exists>m tr'. fetchIPFSMetadata no_network (JStr ''ipfs://X'') [] = (Inr m, tr')) \<and>
   \<not> nullish cert_x \<and>
   \<not> (\<exists>e tr'. cert_try no_network cert_x [] = (Inl e, tr'))"
proof -
  have h: "\<not> nullish cert_x" by (simp add: nullish_def cert_x_def)
  from fetchIPFSMetadata_never_throws [of no_network "JStr ''ipfs://X''" "[]" cert_x] h
  show ?thesis by blast
qed

section \<open>C8: no candidate answers\<close>

lemma probe_backends_no_2xx_step:
  assumes "no_2xx nw (length tr) b"
  shows "probe_backends nw (b # rest) g tr = probe_backends nw rest g (tr @ [b @ ''/health''])"
  using assms by (auto simp: no_2xx_def fetch_def split: option.splits)

text \<open>
  C8: when no candidate of the list gets a 2xx answer to its liveness probe,
  the loop fails with the no-backend error, leaves the two variables as they
  were, and has probed every candidate exactly once, in order: no failed probe
  ends the loop early.
\<close>

theorem no_2xx_probes_all_once:
  assumes "\<forall>i<length cs. no_2xx nw (length tr + i) (cs ! i)"
  shows "probe_backends nw cs g tr = (Inl NoBackend, g, tr @ map (\<lambda>b. b @ ''/health'') cs)"
  using assms
proof (induction cs arbitrary: tr)
  case Nil
  show ?case by simp
next
  case (Cons b cs)
  have "0 < length (b # cs)" by simp
  with Cons.prems have "no_2xx nw (length tr + 0) ((b # cs) ! 0)" by blast
  then have first: "no_2xx nw (length tr) b" by simp
  have later: "\<forall>i<length cs. no_2xx nw (length (tr @ [b @ ''/health'']) + i) (cs ! i)"
  proof (intro allI impI)
    fix i assume "i < length cs"
    then have "Suc i < length (b # cs)" by simp
    with Cons.prems have "no_2xx nw (length tr + Suc i) ((b # cs) ! Suc i)" by blast
    then show "no_2xx nw (length (tr @ [b @ ''/health'']) + i) (cs ! i)" by simp
  qed
  show ?case
    by (simp only: probe_backends_no_2xx_step [OF first] Cons.IH [OF later]) simp
qed

text \<open>C8 at the page's own candidate list, with the network down.\<close>

theorem no_2xx_probes_all_once_witness:
  "no_2xx no_network 0 ''http://localhost:5000'' \<and>
   no_2xx no_network 1 ''http://localhost:3001'' \<and>
   no_2xx no_network 2 ''http://127.0.0.1:5000'' \<and>
   findWorkingBackend no_network initial_globals [] =
     (Inl NoBackend, initial_globals,
      [''http://localhost:5000/health'', ''http://localhost:3001/health'',
       ''http://127.0.0.1:5000/health''])"
proof -
  have h: "\<forall>i<length POSSIBLE_BACKEND_URLS.
       no_2xx no_network (length ([]::trace) + i) (POSSIBLE_BACKEND_URLS ! i)"
    by (simp add: no_network_def no_2xx_def)
  from no_2xx_probes_all_once [OF h, of initial_globals]
  show ?thesis
    by (simp add: findWorkingBackend_def POSSIBLE_BACKEND_URLS_def no_network_def no_2xx_def)
qed

section \<open>C7: the first candidate that answers\<close>

lemma probe_backends_skip_step:
  assumes "no_json_2xx nw (length tr) b"
  shows "\<exists>g'. probe_backends nw (b # rest) g tr =
               probe_backends nw rest g' (tr @ [b @ ''/health''])"
  using assms by (auto simp: no_json_2xx_def fetch_def json_of_def Let_def split: option.splits)

text \<open>
  C7 as stated (the first candidate with a 2xx answer is authoritative and no
  later one is probed) fails: port 5000 answers 200 with a body that is not
  JSON, \<open>response.json()\<close> throws inside the \<open>try\<close>, the loop goes on, port 3001
  is probed and becomes authoritative.
\<close>

theorem first_2xx_not_final:
  "findWorkingBackend net_html_then_json initial_globals [] =
     (Inr (JObj [(''status'', JStr ''OK'')]),
      \<lparr>API_BASE_URL = ''http://localhost:3001/api'',
       HEALTH_URL = ''http://localhost:3001/health''\<rparr>,
      [''http://localhost:5000/health'', ''http://localhost:3001/health''])"
  by (simp add: findWorkingBackend_def POSSIBLE_BACKEND_URLS_def fetch_def
      net_html_then_json_def ok_def json_of_def initial_globals_def)

text \<open>
  C7, amended: when some candidate gets a 2xx answer with a JSON body and no
  candidate before it does, the loop returns that candidate's payload, both
  variables hold that candidate's base URL, and the probes made are those of the
  candidates up to and including it, once each: no later candidate is probed.
\<close>

theorem first_json_2xx_wins:
  assumes "\<forall>i<length pre. no_json_2xx nw (length tr + i) (pre ! i)"
    and "nw (length tr + length pre) (c @ ''/health'') = Some r"
    and "ok r" and "body r = Some payload"
  shows "probe_backends nw (pre @ c # post) g tr =
           (Inr payload,
            \<lparr>API_BASE_URL = c @ ''/api'', HEALTH_URL = c @ ''/health''\<rparr>,
            tr @ map (\<lambda>b. b @ ''/health'') (pre @ [c]))"
  using assms(1,2)
proof (induction pre arbitrary: tr g)
  case Nil
  with assms(3,4) show ?case by (simp add: fetch_def json_of_def)
next
  case (Cons b pre)
  have "0 < length (b # pre)" by simp
  with Cons.prems(1) have "no_json_2xx nw (length tr + 0) ((b # pre) ! 0)" by blast
  then have first: "no_json_2xx nw (length tr) b" by simp
  have later: "\<forall>i<length pre. no_json_2xx nw (length (tr @ [b @ ''/health'']) + i) (pre ! i)"
  proof (intro allI impI)
    fix i assume "i < length pre"
    then have "Suc i < length (b # pre)" by simp
    with Cons.prems(1) have "no_json_2xx nw (length tr + Suc i) ((b # pre) ! Suc i)" by blast
    then show "no_json_2xx nw (length (tr @ [b @ ''/health'']) + i) (pre ! i)" by simp
  qed
  from Cons.prems(2)
  have hit: "nw (length (tr @ [b @ ''/health'']) + length pre) (c @ ''/health'') = Some r"
    by simp
  obtain g' where step: "probe_backends nw (b # (pre @ c # post)) g tr =
      probe_backends nw (pre @ c # post) g' (tr @ [b @ ''/health''])"
    using probe_backends_skip_step [OF first] by blast
  show ?case
    using step Cons.IH [OF later hit, of g'] by simp
qed

text \<open>The amended C7 at the page's own candidate list.\<close>

theorem first_json_2xx_wins_witness:
  "no_json_2xx net_html_then_json 0 ''http://localhost:5000'' \<and>
   net_html_then_json (length ([]::trace) + length [''http://localhost:5000''])
       (''http://localhost:3001'' @ ''/health'') = Some (Response 200 (Some health_payload)) \<and>
   ok (Response 200 (Some health_payload)) \<and>
   findWorkingBackend net_html_then_json initial_globals [] =
     (Inr health_payload,
      \<lparr>API_BASE_URL = ''http://localhost:3001/api'',
       HEALTH_URL = ''http://localhost:3001/health''\<rparr>,
      [''http://localhost:5000/health'', ''http://localhost:3001/health''])"
proof -
  have h1: "\<forall>i<length [''http://localhost:5000''].
       no_json_2xx net_html_then_json (length ([]::trace) + i)
         ([''http://localhost:5000''] ! i)"
    by (simp add: net_html_then_json_def no_json_2xx_def)
  have h2: "net_html_then_json (length ([]::trace) + length [''http://localhost:5000''])
       (''http://localhost:3001'' @ ''/health'') = Some (Response 200 (Some health_payload))"
    by (simp add: net_html_then_json_def health_payload_def)
  have h3: "ok (Response 200 (Some health_payload))" by (simp add: ok_def)
  have h4: "body (Response 200 (Some health_payload)) = Some health_payload" by simp
  have h0: "no_json_2xx net_html_then_json 0 ''http://localhost:5000''"
    by (simp add: net_html_then_json_def no_json_2xx_def)
  from first_json_2xx_wins [OF h1 h2 h3 h4, of "[''http://127.0.0.1:5000'']" initial_globals]
    h0 h2 h3
  show ?thesis by (simp add: findWorkingBackend_def POSSIBLE_BACKEND_URLS_def)
qed

section \<open>C4: switching the network\<close>

text \<open>
  C4 as stated (after error code 4902 the chain is registered and the switch is
  retried) fails: the provider log shows one switch request, before the
  registration, and none after it.
\<close>

theorem switch_not_retried:
  "ensureCorrectNetwork (Some provider_unrecognised) [] =
     (Inr (),
      [eth_chainId, wallet_switchEthereumChain ''0x33'', wallet_addEthereumChain apothem_params])"
  by (simp add: ensureCorrectNetwork_def ethereum_request_def provider_unrecognised_def
      apothemChainId_def error_code_def)

text \<open>
  C4, amended: when the provider is on another chain and the switch request
  fails, then on error code 4902 the chain definition is registered with the
  provider and that is all (the switch is not requested again; an error of the
  registration propagates), and on every other code the switch error propagates
  to the caller.
\<close>

theorem unrecognised_chain_registered:
  assumes "p (length pl) eth_chainId = Inr chain" and "chain \<noteq> JStr apothemChainId"
    and "p (Suc (length pl)) (wallet_switchEthereumChain apothemChainId) = Inl switchError"
  shows "(error_code switchError = Some 4902 \<longrightarrow>
            ensureCorrectNetwork (Some p) pl =
              ((case p (Suc (Suc (length pl))) (wallet_addEthereumChain apothem_params) of
                    Inl e \<Rightarrow> Inl e | Inr v \<Rightarrow> Inr ()),
               pl @ [eth_chainId, wallet_switchEthereumChain apothemChainId,
                     wallet_addEthereumChain apothem_params])) \<and>
         (error_code switchError \<noteq> Some 4902 \<longrightarrow>
            ensureCorrectNetwork (Some p) pl =
              (Inl switchError, pl @ [eth_chainId, wallet_switchEthereumChain apothemChainId]))"
  using assms
  by (simp add: ensureCorrectNetwork_def ethereum_request_def split: sum.splits)

text \<open>The amended C4 at a provider that answers 4902 and at one that answers 4001.\<close>

theorem unrecognised_chain_registered_witness:
  "provider_unrecognised (length ([]::plog)) eth_chainId = Inr (JStr ''0x1'') \<and>
   JStr ''0x1'' \<noteq> JStr apothemChainId \<and>
   provider_unrecognised (Suc (length ([]::plog))) (wallet_switchEthereumChain apothemChainId) =
     Inl (ProviderError (Some 4902)) \<and>
   error_code (ProviderError (Some 4902)) = Some 4902 \<and>
   ensureCorrectNetwork (Some provider_unrecognised) [] =
     (Inr (), [eth_chainId, wallet_switchEthereumChain apothemChainId,
               wallet_addEthereumChain apothem_params]) \<and>
   error_code (ProviderError (Some 4001)) \<noteq> Some 4902 \<and>
   ensureCorrectNetwork (Some provider_rejecting) [] =
     (Inl (ProviderError (Some 4001)), [eth_chainId, wallet_switchEthereumChain apothemChainId])"
proof -
  have a1: "provider_unrecognised (length ([]::plog)) eth_chainId = Inr (JStr ''0x1'')"
    by (simp add: provider_unrecognised_def)
  have a2: "JStr ''0x1'' \<noteq> JStr apothemChainId"
    by (simp add: apothemChainId_def)
  have a3: "provider_unrecognised (Suc (length ([]::plog)))
              (wallet_switchEthereumChain apothemChainId) = Inl (ProviderError (Some 4902))"
    by (simp add: provider_unrecognised_def)
  have b1: "provider_rejecting (length ([]::plog)) eth_chainId = Inr (JStr ''0x1'')"
    by (simp add: provider_rejecting_def)
  have b3: "provider_rejecting (Suc (length ([]::plog)))
              (wallet_switchEthereumChain apothemChainId) = Inl (ProviderError (Some 4001))"
    by (simp add: provider_rejecting_def)
  have c: "error_code (ProviderError (Some 4902)) = Some 4902"
    "error_code (ProviderError (Some 4001)) \<noteq> Some 4902"
    by (simp_all add: error_code_def)
  have d: "provider_unrecognised (Suc (Suc (length ([]::plog))))
             (wallet_addEthereumChain apothem_params) = Inr JNull"
    by (simp add: provider_unrecognised_def)
  from unrecognised_chain_registered [OF a1 a2 a3] unrecognised_chain_registered [OF b1 a2 b3]
    a1 a2 a3 c d
  show ?thesis by simp
qed

section \<open>Handling the settled calls\<close>

lemma fetchDirectBalance_result:
  "fetchDirectBalance eth gb fe a st =
     Inr (case eth of
            None \<Rightarrow> st
          | Some p \<Rightarrow>
              (case gb a of
                 Inl e \<Rightarrow> st\<lparr>balance := JStr ''Unable to load''\<rparr>
               | Inr bal \<Rightarrow> st\<lparr>balance := JStr (fe bal)\<rparr>))"
  by (simp add: fetchDirectBalance_def fetchDirectBalance_try_def split: option.splits sum.splits)

lemma handle_balance_unavailable:
  assumes "balance_unavailable settled"
  shows "handle_balance (Some p) gb fe a (getBalance_settled settled) st =
           Inr (st\<lparr>balance := (case gb a of
                                   Inl e \<Rightarrow> JStr ''Unable to load''
                                 | Inr bal \<Rightarrow> JStr (fe bal))\<rparr>)"
  using assms
  by (auto simp: balance_unavailable_def handle_balance_def getBalance_settled_def
      fetchDirectBalance_result json_of_def get_prop_def
      split: sum.splits option.splits)

lemma handle_certificates_no_error:
  assumes "records_error cr = None"
  shows "\<exists>st'. handle_certificates cr st = Inr st' \<and> error st' = error st \<and>
               loading st' = loading st \<and> metadataLoading st' = metadataLoading st \<and>
               balance st' = balance st"
  using assms
  by (auto simp: records_error_def handle_certificates_def get_prop_def Let_def
      split: sum.splits if_splits)

lemma handle_certificates_throws:
  assumes "records_error cr = Some e"
  shows "handle_certificates cr st = Inl e"
  using assms
  by (auto simp: records_error_def handle_certificates_def get_prop_def Let_def
      split: sum.splits if_splits)

lemma handle_certificates_rejected:
  "handle_certificates (Inl reason) st =
     Inr (st\<lparr>certificates := JArr [], certificateCount := JNum 0\<rparr>)"
  by (simp add: handle_certificates_def)

lemma handle_balance_no_error:
  assumes "balance_error br = None"
  shows "\<exists>st'. handle_balance eth gb fe a br st = Inr st' \<and> error st' = error st \<and>
               certificates st' = certificates st \<and>
               certificateCount st' = certificateCount st"
  using assms
  by (auto simp: balance_error_def handle_balance_def get_prop_def fetchDirectBalance_result
      split: sum.splits if_splits option.splits)

lemma handle_balance_throws:
  assumes "balance_error br = Some e"
  shows "handle_balance eth gb fe a br st = Inl e"
  using assms
  by (auto simp: balance_error_def handle_balance_def get_prop_def
      split: sum.splits if_splits)

section \<open>C6: the balance fallback\<close>

text \<open>
  C6: for every balance request where the backend call throws, returns non-2xx
  (or a body that is not JSON) or returns a payload whose \<open>success\<close> is falsy,
  the balance handling of a page with a wallet provider never throws and takes
  the result from the provider directly: the balance is the provider's raw
  balance converted by \<open>formatEther\<close>, and the sentinel \<open>Unable to load\<close> if that
  fallback itself fails. Within a load whose network-switch step succeeded and
  whose certificates were handled without a throw, that is the balance the load
  ends with, and no error is stored.
\<close>

theorem balance_fallback:
  assumes "balance_unavailable settled"
  shows "handle_balance (Some p) gb fe a (getBalance_settled settled) st =
           Inr (st\<lparr>balance := (case gb a of
                                   Inl e \<Rightarrow> JStr ''Unable to load''
                                 | Inr bal \<Rightarrow> JStr (fe bal))\<rparr>) \<and>
         (fst (ensureCorrectNetwork (Some p) pl) = Inr () \<and>
          records_error (fst (settle_both nw g a tr)) = None \<and>
          fst (snd (settle_both nw g a tr)) = getBalance_settled settled \<longrightarrow>
            balance (fst (fetchWalletData nw g (Some p) gb fe a st tr pl)) =
              (case gb a of
                 Inl e \<Rightarrow> JStr ''Unable to load''
               | Inr bal \<Rightarrow> JStr (fe bal)) \<and>
            error (fst (fetchWalletData nw g (Some p) gb fe a st tr pl)) = None)"
proof (intro conjI impI)
  show "handle_balance (Some p) gb fe a (getBalance_settled settled) st =
           Inr (st\<lparr>balance := (case gb a of
                                   Inl e \<Rightarrow> JStr ''Unable to load''
                                 | Inr bal \<Rightarrow> JStr (fe bal))\<rparr>)"
    using assms by (rule handle_balance_unavailable)
next
  assume h: "fst (ensureCorrectNetwork (Some p) pl) = Inr () \<and>
          records_error (fst (settle_both nw g a tr)) = None \<and>
          fst (snd (settle_both nw g a tr)) = getBalance_settled settled"
  obtain pl' where n: "ensureCorrectNetwork (Some p) pl = (Inr (), pl')"
    using h by (cases "ensureCorrectNetwork (Some p) pl") simp
  obtain cr tr' where s: "settle_both nw g a tr = (cr, getBalance_settled settled, tr')"
    and c: "records_error cr = None"
    using h by (cases "settle_both nw g a tr") auto
  let ?st1 = "st\<lparr>loading := True, metadataLoading := True, error := None\<rparr>"
  obtain st2 where hc: "handle_certificates cr ?st1 = Inr st2" and e2: "error st2 = None"
    using handle_certificates_no_error [OF c, of ?st1] by auto
  have hb: "handle_balance (Some p) gb fe a (getBalance_settled settled) st2 =
           Inr (st2\<lparr>balance := (case gb a of
                                   Inl e \<Rightarrow> JStr ''Unable to load''
                                 | Inr bal \<Rightarrow> JStr (fe bal))\<rparr>)"
    using assms by (rule handle_balance_unavailable)
  have final: "fst (fetchWalletData nw g (Some p) gb fe a st tr pl) =
          st2\<lparr>balance := (case gb a of
                             Inl e \<Rightarrow> JStr ''Unable to load''
                           | Inr bal \<Rightarrow> JStr (fe bal)),
               loading := False, metadataLoading := False\<rparr>"
    by (simp add: fetchWalletData_def fetchWalletData_try_def Let_def n s hc hb)
  show "balance (fst (fetchWalletData nw g (Some p) gb fe a st tr pl)) =
              (case gb a of
                 Inl e \<Rightarrow> JStr ''Unable to load''
               | Inr bal \<Rightarrow> JStr (fe bal))"
    by (simp add: final)
  show "error (fst (fetchWalletData nw g (Some p) gb fe a st tr pl)) = None"
    by (simp add: final e2)
qed

text \<open>
  C6 with the backend unreachable: the balance of \<open>sample_wallet\<close> is the
  provider's, the balance of an address the provider call throws on is the
  sentinel, and a whole load for \<open>sample_wallet\<close> ends with the provider's
  balance and no error.
\<close>

theorem balance_fallback_witness:
  "balance_unavailable (Inl FetchFailed) \<and>
   handle_balance (Some provider_apothem) sample_getBalance sample_formatEther sample_wallet
       (getBalance_settled (Inl FetchFailed)) initial_dashboard =
     Inr (initial_dashboard\<lparr>balance := JStr ''1.5''\<rparr>) \<and>
   handle_balance (Some provider_apothem) sample_getBalance sample_formatEther ''0xabc''
       (getBalance_settled (Inl FetchFailed)) initial_dashboard =
     Inr (initial_dashboard\<lparr>balance := JStr ''Unable to load''\<rparr>) \<and>
   fst (ensureCorrectNetwork (Some provider_apothem) []) = Inr () \<and>
   records_error (fst (settle_both no_network initial_globals sample_wallet [])) = None \<and>
   fst (snd (settle_both no_network initial_globals sample_wallet [])) =
     getBalance_settled (Inl FetchFailed) \<and>
   balance (fst (fetchWalletData no_network initial_globals (Some provider_apothem)
                   sample_getBalance sample_formatEther sample_wallet initial_dashboard [] [])) =
     JStr ''1.5'' \<and>
   error (fst (fetchWalletData no_network initial_globals (Some provider_apothem)
                 sample_getBalance sample_formatEther sample_wallet initial_dashboard [] [])) =
     None"
proof -
  have h: "balance_unavailable (Inl FetchFailed)"
    by (simp add: balance_unavailable_def)
  have n: "fst (ensureCorrectNetwork (Some provider_apothem) []) = Inr ()"
    by (simp add: ensureCorrectNetwork_def ethereum_request_def provider_apothem_def
        apothemChainId_def)
  have s: "settle_both no_network initial_globals sample_wallet [] =
             (Inl FetchFailed, Inl FetchFailed,
              [API_BASE_URL initial_globals @ ''/certificates/wallet/'' @ sample_wallet,
               API_BASE_URL initial_globals @ ''/wallet/'' @ sample_wallet @ ''/balance''])"
    by (simp add: settle_both_def fetch_def no_network_def getCertificates_settled_def
        getBalance_settled_def)
  have r: "records_error (fst (settle_both no_network initial_globals sample_wallet [])) = None"
    by (simp add: s records_error_def)
  have b: "fst (snd (settle_both no_network initial_globals sample_wallet [])) =
             getBalance_settled (Inl FetchFailed)"
    by (simp add: s getBalance_settled_def)
  have v: "sample_getBalance sample_wallet = Inr 1500000000000000000"
    "sample_getBalance ''0xabc'' = Inl TypeError"
    "sample_formatEther 1500000000000000000 = ''1.5''"
    by (simp_all add: sample_getBalance_def sample_formatEther_def sample_wallet_def)
  note w1 = balance_fallback [OF h, where p = provider_apothem and gb = sample_getBalance
      and fe = sample_formatEther and a = sample_wallet and st = initial_dashboard
      and pl = "[]" and nw = no_network and g = initial_globals and tr = "[]"]
  note w2 = balance_fallback [OF h, where p = provider_apothem and gb = sample_getBalance
      and fe = sample_formatEther and a = "''0xabc''" and st = initial_dashboard
      and pl = "[]" and nw = no_network and g = initial_globals and tr = "[]"]
  from w1 n r b v have a1:
    "handle_balance (Some provider_apothem) sample_getBalance sample_formatEther sample_wallet
       (getBalance_settled (Inl FetchFailed)) initial_dashboard =
     Inr (initial_dashboard\<lparr>balance := JStr ''1.5''\<rparr>)"
    and a3: "balance (fst (fetchWalletData no_network initial_globals (Some provider_apothem)
                   sample_getBalance sample_formatEther sample_wallet initial_dashboard [] [])) =
     JStr ''1.5''"
    and a4: "error (fst (fetchWalletData no_network initial_globals (Some provider_apothem)
                 sample_getBalance sample_formatEther sample_wallet initial_dashboard [] [])) =
     None"
    by simp_all
  from w2 v have a2:
    "handle_balance (Some provider_apothem) sample_getBalance sample_formatEther ''0xabc''
       (getBalance_settled (Inl FetchFailed)) initial_dashboard =
     Inr (initial_dashboard\<lparr>balance := JStr ''Unable to load''\<rparr>)"
    by simp
  from h a1 a2 n r b a3 a4 show ?thesis by (intro conjI)
qed

section \<open>C2: when the dashboard load fails as a whole\<close>

lemma fetchWalletData_flags:
  "\<not> loading (fst (fetchWalletData nw g eth gb fe a st tr pl)) \<and>
   \<not> metadataLoading (fst (fetchWalletData nw g eth gb fe a st tr pl))"
  by (cases "fetchWalletData_try nw g eth gb fe a st tr pl")
     (auto simp: fetchWalletData_def fetchWalletData_try_def Let_def
        split: prod.splits sum.splits option.splits)

lemma fetchWalletData_error:
  "error (fst (fetchWalletData nw g eth gb fe a st tr pl)) =
     (case fst (ensureCorrectNetwork eth pl) of
        Inl e \<Rightarrow> Some e
      | Inr u \<Rightarrow>
          (case records_error (fst (settle_both nw g a tr)) of
             Some e \<Rightarrow> Some e
           | None \<Rightarrow> balance_error (fst (snd (settle_both nw g a tr)))))"
proof -
  obtain nres pl' where n: "ensureCorrectNetwork eth pl = (nres, pl')"
    by (cases "ensureCorrectNetwork eth pl")
  obtain cr br tr' where s: "settle_both nw g a tr = (cr, br, tr')"
    by (cases "settle_both nw g a tr")
  let ?st1 = "st\<lparr>loading := True, metadataLoading := True, error := None\<rparr>"
  show ?thesis
  proof (cases nres)
    case (Inl e)
    then show ?thesis
      by (simp add: fetchWalletData_def fetchWalletData_try_def Let_def n)
  next
    case (Inr u)
    show ?thesis
    proof (cases "records_error cr")
      case (Some e)
      from handle_certificates_throws [OF Some, of ?st1]
      show ?thesis
        by (simp add: fetchWalletData_def fetchWalletData_try_def Let_def n s Inr Some)
    next
      case None
      obtain st2 where hc: "handle_certificates cr ?st1 = Inr st2" and e2: "error st2 = None"
        using handle_certificates_no_error [OF None, of ?st1] by auto
      show ?thesis
      proof (cases "balance_error br")
        case (Some e)
        from handle_balance_throws [OF Some, of eth gb fe a st2]
        show ?thesis
          by (simp add: fetchWalletData_def fetchWalletData_try_def Let_def n s Inr None hc Some)
      next
        case bn: None
        obtain st3 where hb: "handle_balance eth gb fe a br st2 = Inr st3"
          and e3: "error st3 = error st2"
          using handle_balance_no_error [OF bn, of eth gb fe a st2] by auto
        show ?thesis
          by (simp add: fetchWalletData_def fetchWalletData_try_def Let_def n s Inr None hc bn
              hb e3 e2)
      qed
    qed
  qed
qed

lemma fetchWalletData_records_rejected:
  assumes "fst (ensureCorrectNetwork eth pl) = Inr ()"
    and "fst (settle_both nw g a tr) = Inl reason"
  shows "certificates (fst (fetchWalletData nw g eth gb fe a st tr pl)) = JArr [] \<and>
         certificateCount (fst (fetchWalletData nw g eth gb fe a st tr pl)) = JNum 0"
proof -
  obtain pl' where n: "ensureCorrectNetwork eth pl = (Inr (), pl')"
    using assms(1) by (cases "ensureCorrectNetwork eth pl") simp
  obtain br tr' where s: "settle_both nw g a tr = (Inl reason, br, tr')"
    using assms(2) by (cases "settle_both nw g a tr") simp
  let ?st2 = "st\<lparr>loading := True, metadataLoading := True, error := None,
                  certificates := JArr [], certificateCount := JNum 0\<rparr>"
  show ?thesis
  proof (cases "balance_error br")
    case (Some e)
    from handle_balance_throws [OF Some, of eth gb fe a ?st2]
    show ?thesis
      by (simp add: Let_def fetchWalletData_def fetchWalletData_try_def n s
          handle_certificates_rejected)
  next
    case None
    obtain st3 where hb: "handle_balance eth gb fe a br ?st2 = Inr st3"
      and c3: "certificates st3 = certificates ?st2"
      and k3: "certificateCount st3 = certificateCount ?st2"
      using handle_balance_no_error [OF None, of eth gb fe a ?st2] by auto
    from hb c3 k3 show ?thesis
      by (simp add: Let_def fetchWalletData_def fetchWalletData_try_def n s
          handle_certificates_rejected)
  qed
qed

text \<open>
  C2 as stated (the load fails as a whole only when the network-switch step
  throws) fails: with the provider already on the Apothem chain, a backend that
  answers the certificates call with status 200 and \<open>success: false\<close> makes
  \<open>fetchWalletData\<close> throw the payload's \<open>error\<close> and end in its \<open>catch\<close> block.
\<close>

theorem success_false_aborts_load:
  "fst (ensureCorrectNetwork (Some provider_apothem) []) = Inr () \<and>
   error (fst (fetchWalletData net_refused initial_globals (Some provider_apothem)
                 sample_getBalance sample_formatEther sample_wallet initial_dashboard [] [])) =
     Some (Failed (JStr ''Wallet not found''))"
  by (simp add: fetchWalletData_def fetchWalletData_try_def ensureCorrectNetwork_def
      ethereum_request_def provider_apothem_def apothemChainId_def settle_both_def fetch_def
      net_refused_def initial_globals_def ok_def json_of_def getCertificates_settled_def
      getBalance_settled_def get_prop_def nullish_def read_prop_def own_props_def truthy_def
      handle_certificates_def js_or_def sample_wallet_def)

text \<open>
  C2, amended: for every identity key, \<open>fetchWalletData\<close> fails as a whole (ends in
  its \<open>catch\<close> block, with the error stored) only when the network-switch step
  throws, or handling the settled certificates call throws (the call was
  fulfilled with a payload whose \<open>success\<close> is falsy, by the explicit \<open>throw\<close>,
  or with \<open>null\<close>), or handling the settled balance call throws (the call was
  fulfilled with \<open>null\<close>, or with a truthy \<open>success\<close> and no \<open>balance\<close> object);
  in each of these cases it fails, with the first of these errors, and in every
  other case it stores no error. In particular a rejected record fetch never
  aborts it and, once the network-switch step has succeeded, surfaces an empty
  record set with count 0, and a rejected balance fetch never aborts it. Either
  way both loading flags end cleared.
\<close>

theorem fetchWalletData_fails_only_when:
  "error (fst (fetchWalletData nw g eth gb fe a st tr pl)) =
     (case fst (ensureCorrectNetwork eth pl) of
        Inl e \<Rightarrow> Some e
      | Inr u \<Rightarrow>
          (case records_error (fst (settle_both nw g a tr)) of
             Some e \<Rightarrow> Some e
           | None \<Rightarrow> balance_error (fst (snd (settle_both nw g a tr))))) \<and>
   records_error (Inl reason) = None \<and>
   balance_error (Inl reason') = None \<and>
   (fst (ensureCorrectNetwork eth pl) = Inr () \<and> fst (settle_both nw g a tr) = Inl reason \<longrightarrow>
      certificates (fst (fetchWalletData nw g eth gb fe a st tr pl)) = JArr [] \<and>
      certificateCount (fst (fetchWalletData nw g eth gb fe a st tr pl)) = JNum 0) \<and>
   \<not> loading (fst (fetchWalletData nw g eth gb fe a st tr pl)) \<and>
   \<not> metadataLoading (fst (fetchWalletData nw g eth gb fe a st tr pl))"
proof -
  have 1: "fst (ensureCorrectNetwork eth pl) = Inr () \<and> fst (settle_both nw g a tr) = Inl reason
      \<longrightarrow>
      certificates (fst (fetchWalletData nw g eth gb fe a st tr pl)) = JArr [] \<and>
      certificateCount (fst (fetchWalletData nw g eth gb fe a st tr pl)) = JNum 0"
    by (intro impI, elim conjE) (rule fetchWalletData_records_rejected)
  have 2: "records_error (Inl reason) = None" "balance_error (Inl reason') = None"
    by (simp_all add: records_error_def balance_error_def)
  from fetchWalletData_error [of nw g eth gb fe a st tr pl] 1 2
    fetchWalletData_flags [of nw g eth gb fe a st tr pl]
  show ?thesis by (intro conjI) simp_all
qed

text \<open>
  The amended C2 on five runs for \<open>sample_wallet\<close>: the user rejects the switch;
  the backend answers \<open>success: false\<close>; the network is down; the backend
  answers both calls; the backend lists a record and fails the balance call.
\<close>

theorem fetchWalletData_fails_only_when_witness:
  "fst (ensureCorrectNetwork (Some provider_rejecting) []) = Inl (ProviderError (Some 4001)) \<and>
   error (fst (fetchWalletData no_network initial_globals (Some provider_rejecting)
                 sample_getBalance sample_formatEther sample_wallet initial_dashboard [] [])) =
     Some (ProviderError (Some 4001)) \<and>
   fst (ensureCorrectNetwork (Some provider_apothem) []) = Inr () \<and>
   error (fst (fetchWalletData net_refused initial_globals (Some provider_apothem)
                 sample_getBalance sample_formatEther sample_wallet initial_dashboard [] [])) =
     Some (Failed (JStr ''Wallet not found'')) \<and>
   fst (settle_both no_network initial_globals sample_wallet []) = Inl FetchFailed \<and>
   fst (snd (settle_both no_network initial_globals sample_wallet [])) = Inl FetchFailed \<and>
   certificates (fst (fetchWalletData no_network initial_globals (Some provider_apothem)
                 sample_getBalance sample_formatEther sample_wallet initial_dashboard [] [])) =
     JArr [] \<and>
   certificateCount (fst (fetchWalletData no_network initial_globals (Some provider_apothem)
                 sample_getBalance sample_formatEther sample_wallet initial_dashboard [] [])) =
     JNum 0 \<and>
   error (fst (fetchWalletData no_network initial_globals (Some provider_apothem)
                 sample_getBalance sample_formatEther sample_wallet initial_dashboard [] [])) =
     None \<and>
   fst (settle_both net_both initial_globals sample_wallet []) = Inr listing_enriched \<and>
   fst (snd (settle_both net_both initial_globals sample_wallet [])) = Inr balance_payload \<and>
   error (fst (fetchWalletData net_both initial_globals (Some provider_apothem)
                 sample_getBalance sample_formatEther sample_wallet initial_dashboard [] [])) =
     None \<and>
   fst (settle_both net_listing initial_globals sample_wallet []) = Inr listing_enriched \<and>
   fst (snd (settle_both net_listing initial_globals sample_wallet [])) = Inl FetchFailed \<and>
   error (fst (fetchWalletData net_listing initial_globals (Some provider_apothem)
                 sample_getBalance sample_formatEther sample_wallet initial_dashboard [] [])) =
     None"
proof -
  have n1: "fst (ensureCorrectNetwork (Some provider_rejecting) []) =
              Inl (ProviderError (Some 4001))"
    by (simp add: ensureCorrectNetwork_def ethereum_request_def provider_rejecting_def
        apothemChainId_def error_code_def)
  have n2: "fst (ensureCorrectNetwork (Some provider_apothem) []) = Inr ()"
    by (simp add: ensureCorrectNetwork_def ethereum_request_def provider_apothem_def
        apothemChainId_def)
  have r1: "fst (settle_both net_refused initial_globals sample_wallet []) =
              Inr (JObj [(''success'', JBool False), (''error'', JStr ''Wallet not found'')])"
    by (simp add: settle_both_def fetch_def net_refused_def initial_globals_def ok_def
        json_of_def getCertificates_settled_def get_prop_def nullish_def read_prop_def
        own_props_def truthy_def sample_wallet_def)
  have r2: "records_error (Inr (JObj [(''success'', JBool False),
                                      (''error'', JStr ''Wallet not found'')])) =
              Some (Failed (JStr ''Wallet not found''))"
    by (simp add: records_error_def nullish_def read_prop_def own_props_def truthy_def js_or_def)
  have d1: "fst (settle_both no_network initial_globals sample_wallet []) = Inl FetchFailed"
    "fst (snd (settle_both no_network initial_globals sample_wallet [])) = Inl FetchFailed"
    by (simp_all add: settle_both_def fetch_def no_network_def getCertificates_settled_def
        getBalance_settled_def)
  have b1: "fst (settle_both net_both initial_globals sample_wallet []) = Inr listing_enriched"
    by (simp add: settle_both_def fetch_def net_both_def initial_globals_def ok_def
        json_of_def getCertificates_settled_def get_prop_def nullish_def read_prop_def
        own_props_def truthy_def listing_def cert_x_def cert_with_metadata_def cert_try_def
        fetchIPFSMetadata_def fetchIPFSMetadata_try_def resolveIPFS_def enrich_def spread_def
        listing_enriched_def sample_wallet_def)
  have b2: "fst (snd (settle_both net_both initial_globals sample_wallet [])) =
              Inr balance_payload"
    by (simp add: settle_both_def fetch_def net_both_def initial_globals_def ok_def
        json_of_def getBalance_settled_def sample_wallet_def split: prod.splits)
  have l1: "fst (settle_both net_listing initial_globals sample_wallet []) = Inr listing_enriched"
    by (simp add: settle_both_def fetch_def net_listing_def initial_globals_def ok_def
        json_of_def getCertificates_settled_def get_prop_def nullish_def read_prop_def
        own_props_def truthy_def listing_def cert_x_def cert_with_metadata_def cert_try_def
        fetchIPFSMetadata_def fetchIPFSMetadata_try_def resolveIPFS_def enrich_def spread_def
        listing_enriched_def sample_wallet_def)
  have l2: "fst (snd (settle_both net_listing initial_globals sample_wallet [])) =
              Inl FetchFailed"
    by (simp add: settle_both_def fetch_def net_listing_def initial_globals_def
        getBalance_settled_def sample_wallet_def split: prod.splits)
  have e: "records_error (Inl FetchFailed) = None" "balance_error (Inl FetchFailed) = None"
    "records_error (Inr listing_enriched) = None" "balance_error (Inr balance_payload) = None"
    by (simp_all add: records_error_def balance_error_def nullish_def read_prop_def
        own_props_def truthy_def listing_enriched_def balance_payload_def)
  note w1 = fetchWalletData_fails_only_when [where eth = "Some provider_rejecting"
      and pl = "[]" and nw = no_network and g = initial_globals and gb = sample_getBalance
      and fe = sample_formatEther and a = sample_wallet and st = initial_dashboard
      and tr = "[]"]
  note w2 = fetchWalletData_fails_only_when [where eth = "Some provider_apothem"
      and pl = "[]" and nw = net_refused and g = initial_globals and gb = sample_getBalance
      and fe = sample_formatEther and a = sample_wallet and st = initial_dashboard
      and tr = "[]"]
  note w3 = fetchWalletData_fails_only_when [where eth = "Some provider_apothem"
      and pl = "[]" and nw = no_network and g = initial_globals and gb = sample_getBalance
      and fe = sample_formatEther and a = sample_wallet and st = initial_dashboard
      and tr = "[]" and reason = FetchFailed]
  note w4 = fetchWalletData_fails_only_when [where eth = "Some provider_apothem"
      and pl = "[]" and nw = net_both and g = initial_globals and gb = sample_getBalance
      and fe = sample_formatEther and a = sample_wallet and st = initial_dashboard
      and tr = "[]"]
  note w5 = fetchWalletData_fails_only_when [where eth = "Some provider_apothem"
      and pl = "[]" and nw = net_listing and g = initial_globals and gb = sample_getBalance
      and fe = sample_formatEther and a = sample_wallet and st = initial_dashboard
      and tr = "[]"]
  from w1 n1 have a: "error (fst (fetchWalletData no_network initial_globals
                 (Some provider_rejecting) sample_getBalance sample_formatEther sample_wallet
                 initial_dashboard [] [])) = Some (ProviderError (Some 4001))"
    by simp
  from w2 n2 r1 r2 have b: "error (fst (fetchWalletData net_refused initial_globals
                 (Some provider_apothem) sample_getBalance sample_formatEther sample_wallet
                 initial_dashboard [] [])) = Some (Failed (JStr ''Wallet not found''))"
    by simp
  from w3 n2 d1 e have c: "certificates (fst (fetchWalletData no_network initial_globals
                 (Some provider_apothem) sample_getBalance sample_formatEther sample_wallet
                 initial_dashboard [] [])) = JArr []"
      "certificateCount (fst (fetchWalletData no_network initial_globals
                 (Some provider_apothem) sample_getBalance sample_formatEther sample_wallet
                 initial_dashboard [] [])) = JNum 0"
      "error (fst (fetchWalletData no_network initial_globals
                 (Some provider_apothem) sample_getBalance sample_formatEther sample_wallet
                 initial_dashboard [] [])) = None"
    by simp_all
  from w4 n2 b1 b2 e have d: "error (fst (fetchWalletData net_both initial_globals
                 (Some provider_apothem) sample_getBalance sample_formatEther sample_wallet
                 initial_dashboard [] [])) = None"
    by simp
  from w5 n2 l1 l2 e have f: "error (fst (fetchWalletData net_listing initial_globals
                 (Some provider_apothem) sample_getBalance sample_formatEther sample_wallet
                 initial_dashboard [] [])) = None"
    by simp
  from n1 a n2 b d1 c b1 b2 d l1 l2 f show ?thesis by (intro conjI)
qed

end
